theory Spec2Isabelle
  imports Main
begin

section \<open>The module \<^verbatim>\<open>reactchat/src/App.tsx\<close>\<close>

text \<open>
  The module does three things: it builds a tree of \<^verbatim>\<open>Route\<close> elements, hands the route
  objects made from that tree to \<^verbatim>\<open>createBrowserRouter\<close> and keeps the resulting router
  object in the module-level constant \<^verbatim>\<open>router\<close>, and it exports the component \<^verbatim>\<open>App\<close>,
  whose body returns a \<^verbatim>\<open>RouterProvider\<close> element for that router.

  Router objects live in a store, so that "the same router object" is a statement about
  references and "a router was constructed" is a statement about allocation.
\<close>

subsection \<open>Elements, route objects and the store\<close>

type_synonym ref = nat

text \<open>
  The three kinds of element the module writes: \<^verbatim>\<open><Home />\<close>,
  \<^verbatim>\<open><Route path=... element=...> children </Route>\<close> (both props optional) and
  \<^verbatim>\<open><RouterProvider router={r} />\<close>.
\<close>

datatype jsx =
    Home
  | Route "string option" "jsx option" "jsx list"
  | RouterProvider ref

text \<open>A route object: the \<^verbatim>\<open>path\<close>, \<^verbatim>\<open>element\<close> and \<^verbatim>\<open>children\<close> of a route.\<close>

datatype route =
  RouteObject (path: "string option") (element: "jsx option") (children: "route list")

record router_object =
  routes :: "route list"

type_synonym store = "router_object list"

definition deref :: "store \<Rightarrow> ref \<Rightarrow> router_object option" where
  "deref h r = (if r < length h then Some (h ! r) else None)"

subsection \<open>The routing library's constructors\<close>

text \<open>
  \<^verbatim>\<open>createRoutesFromElements\<close> turns a \<^verbatim>\<open>Route\<close> element into a route object with the same
  path and element, and its child elements into the children of that object. Anything
  that is not a \<^verbatim>\<open>Route\<close> element is rejected (the result \<open>None\<close>).
\<close>

fun createRoutesFromElements :: "jsx \<Rightarrow> route list option" where
  "createRoutesFromElements (Route p e cs) =
     map_option (\<lambda>rss. [RouteObject p e (concat rss)])
       (those (map createRoutesFromElements cs))"
| "createRoutesFromElements Home = None"
| "createRoutesFromElements (RouterProvider r) = None"

text \<open>
  \<^verbatim>\<open>createBrowserRouter\<close> constructs a new router object that owns the route objects it
  is given, and returns the reference to it. It refuses an empty list of routes and then
  constructs nothing (the result \<open>None\<close>).
\<close>

definition createBrowserRouter :: "route list \<Rightarrow> store \<Rightarrow> (ref \<times> store) option" where
  "createBrowserRouter rs h =
     (if rs = [] then None else Some (length h, h @ [\<lparr>routes = rs\<rparr>]))"

subsection \<open>Lines 4 to 10: the module-level constant \<^verbatim>\<open>router\<close>\<close>

text \<open>The element tree of lines 6 to 8.\<close>

definition route_elements :: jsx where
  "route_elements = Route None None [Route (Some ''/'') (Some Home) []]"

text \<open>
  Evaluating the module evaluates the initialiser of \<^verbatim>\<open>router\<close>: the result is the
  reference bound to the constant and the store after the construction.
\<close>

definition router :: "store \<Rightarrow> (ref \<times> store) option" where
  "router h =
     (case createRoutesFromElements route_elements of
        None \<Rightarrow> None
      | Some rs \<Rightarrow> createBrowserRouter rs h)"

subsection \<open>Lines 12 to 16: the component \<^verbatim>\<open>App\<close> and the export\<close>

text \<open>
  \<^verbatim>\<open>App\<close> is an arrow function with an empty parameter list that closes over the constant
  \<^verbatim>\<open>router\<close>. The first argument of the model is the reference bound to that constant;
  the second is the list of arguments a caller passes, none of which is bound to a name.
\<close>

definition App :: "ref \<Rightarrow> 'a list \<Rightarrow> store \<Rightarrow> jsx \<times> store" where
  "App router_ref args h = (RouterProvider router_ref, h)"

definition module_exports :: "ref \<Rightarrow> (string \<times> ('a list \<Rightarrow> store \<Rightarrow> jsx \<times> store)) list" where
  "module_exports router_ref = [(''default'', App router_ref)]"

subsection \<open>An application session\<close>

text \<open>
  A session evaluates the module once and then invokes \<^verbatim>\<open>App\<close> any number of times, each
  time with whatever arguments the caller supplies.
\<close>

fun mounts :: "ref \<Rightarrow> 'a list list \<Rightarrow> store \<Rightarrow> jsx list \<times> store" where
  "mounts r [] h = ([], h)"
| "mounts r (args # rest) h =
     (case App r args h of
        (el, h1) \<Rightarrow> (case mounts r rest h1 of (els, h2) \<Rightarrow> (el # els, h2)))"

definition session :: "store \<Rightarrow> 'a list list \<Rightarrow> (ref \<times> jsx list \<times> store) option" where
  "session h0 argss =
     (case router h0 of
        None \<Rightarrow> None
      | Some (r, h1) \<Rightarrow> (case mounts r argss h1 of (els, h2) \<Rightarrow> Some (r, els, h2)))"

subsection \<open>The route table\<close>

text \<open>
  A route entry is a pair of a path and a page: the routes of the tree that have both a
  path and an element, in the order of the tree.
\<close>

fun route_entries :: "route \<Rightarrow> (string \<times> jsx) list" where
  "route_entries (RouteObject p e cs) =
     (case p of
        None \<Rightarrow> []
      | Some pa \<Rightarrow> (case e of None \<Rightarrow> [] | Some el \<Rightarrow> [(pa, el)]))
     @ concat (map route_entries cs)"

definition route_table :: "route list \<Rightarrow> (string \<times> jsx) list" where
  "route_table rs = concat (map route_entries rs)"

text \<open>The route objects and the route table of the router the module constructs.\<close>

definition built_routes :: "store \<Rightarrow> route list option" where
  "built_routes h0 =
     (case router h0 of
        None \<Rightarrow> None
      | Some (r, h1) \<Rightarrow> map_option routes (deref h1 r))"

definition built_table :: "store \<Rightarrow> (string \<times> jsx) list option" where
  "built_table h0 = map_option route_table (built_routes h0)"

subsection \<open>Who renders what\<close>

text \<open>
  The router resolves a location against the entries of its table. Which locations a
  path pattern accepts is decided inside the routing library; resolution takes that test
  as the parameter \<open>pm\<close> (the pattern first, the location second).
\<close>

definition matching_entries ::
  "(string \<Rightarrow> string \<Rightarrow> bool) \<Rightarrow> route list \<Rightarrow> string \<Rightarrow> (string \<times> jsx) list" where
  "matching_entries pm rs loc = filter (\<lambda>entry. pm (fst entry) loc) (route_table rs)"

definition resolve ::
  "(string \<Rightarrow> string \<Rightarrow> bool) \<Rightarrow> route list \<Rightarrow> string \<Rightarrow> (string \<times> jsx) option" where
  "resolve pm rs loc =
     (case matching_entries pm rs loc of [] \<Rightarrow> None | entry # _ \<Rightarrow> Some entry)"

text \<open>
  What an element puts on the display surface at a location. The output of a page is
  external to the module: \<open>page\<close> gives it. A \<^verbatim>\<open>RouterProvider\<close> renders the page of the
  entry its router resolves the location to. When there is none the router reports a
  not-found error, and since no route of the module declares an error element, what is
  rendered is the routing library's own default error page. A \<^verbatim>\<open>Route\<close> element is
  configuration and renders nothing by itself.
\<close>

datatype 'o rendered = Nothing | Rendered 'o | DefaultErrorPage

definition render ::
  "(string \<Rightarrow> string \<Rightarrow> bool) \<Rightarrow> (jsx \<Rightarrow> 'o) \<Rightarrow> store \<Rightarrow> string \<Rightarrow> jsx \<Rightarrow> 'o rendered" where
  "render pm page h loc el =
     (case el of
        Home \<Rightarrow> Rendered (page Home)
      | Route p e cs \<Rightarrow> Nothing
      | RouterProvider r \<Rightarrow>
          (case deref h r of
             None \<Rightarrow> Nothing
           | Some ro \<Rightarrow>
               (case resolve pm (routes ro) loc of
                  None \<Rightarrow> DefaultErrorPage
                | Some entry \<Rightarrow> Rendered (page (snd entry)))))"

text \<open>
  Evaluating the module, mounting \<^verbatim>\<open>App\<close> once and rendering what it returns at a location.
  The result is \<open>None\<close> when the module fails to evaluate.
\<close>

definition mount_at ::
  "(string \<Rightarrow> string \<Rightarrow> bool) \<Rightarrow> (jsx \<Rightarrow> 'o) \<Rightarrow> store \<Rightarrow> 'a list \<Rightarrow> string \<Rightarrow> 'o rendered option" where
  "mount_at pm page h0 args loc =
     (case router h0 of
        None \<Rightarrow> None
      | Some (r, h1) \<Rightarrow> (case App r args h1 of (el, h2) \<Rightarrow> Some (render pm page h2 loc el)))"

definition built_matches ::
  "(string \<Rightarrow> string \<Rightarrow> bool) \<Rightarrow> store \<Rightarrow> string \<Rightarrow> (string \<times> jsx) list option" where
  "built_matches pm h0 loc = map_option (\<lambda>rs. matching_entries pm rs loc) (built_routes h0)"

text \<open>
  Modelled from the spec: the path matching as the spec words it. The spec has the router
  take a location string and give either the page of the entry for it or no match (4.2),
  the location \<^verbatim>\<open>/\<close> resolved to the entry with path \<^verbatim>\<open>/\<close> and every other location to no
  match, there being no fallback route (7, 8). So an entry accepts the location equal to
  its path, and a fallback route is one that accepts every location, which the routing
  library writes as the path \<^verbatim>\<open>*\<close>.
\<close>

definition path_matches :: "string \<Rightarrow> string \<Rightarrow> bool" where
  "path_matches pattern loc = (pattern = loc \<or> pattern = ''*'')"

text \<open>
  The path test the routing library applies, for patterns without dynamic segments (the
  module declares no other). It is not among the sources of the repository; this is its
  behaviour as the library defines it. The router matches the pathname of the location:
  the part before the first \<^verbatim>\<open>#\<close> or \<^verbatim>\<open>?\<close>, and \<^verbatim>\<open>/\<close> when that part is empty.
\<close>

definition pathname :: "string \<Rightarrow> string" where
  "pathname loc =
     (case takeWhile (\<lambda>c. c \<noteq> CHR ''#'' \<and> c \<noteq> CHR ''?'') loc of
        [] \<Rightarrow> ''/''
      | c # cs \<Rightarrow> c # cs)"

definition is_slash :: "char \<Rightarrow> bool" where
  "is_slash c = (c = CHR ''/'')"

definition strip_trailing_slashes :: "string \<Rightarrow> string" where
  "strip_trailing_slashes cs = rev (dropWhile is_slash (rev cs))"

definition strip_leading_slashes :: "string \<Rightarrow> string" where
  "strip_leading_slashes cs = dropWhile is_slash cs"

definition lower :: "char \<Rightarrow> char" where
  "lower c =
     (if 65 \<le> (of_char c :: nat) \<and> (of_char c :: nat) \<le> 90
      then char_of (of_char c + 32 :: nat) else c)"

text \<open>
  The pattern loses its trailing slashes and gets exactly one leading slash; a pathname
  matches it to the end when it is the pattern followed by any number of slashes, letters
  compared without regard to case. The pattern \<^verbatim>\<open>*\<close> accepts every pathname that begins
  with a slash.
\<close>

definition matchPath :: "string \<Rightarrow> string \<Rightarrow> bool" where
  "matchPath pattern loc =
     (case pathname loc of
        [] \<Rightarrow> False
      | c # rest \<Rightarrow>
          is_slash c \<and>
          (pattern = ''*'' \<or>
           map lower (strip_trailing_slashes rest) =
             map lower (strip_leading_slashes (strip_trailing_slashes pattern))))"

text \<open>Every route object of a tree, and the fallback routes among them.\<close>

fun all_routes :: "route \<Rightarrow> route list" where
  "all_routes (RouteObject p e cs) = RouteObject p e cs # concat (map all_routes cs)"

definition fallback_routes :: "route list \<Rightarrow> route list" where
  "fallback_routes rs = filter (\<lambda>r. path r = Some ''*'') (concat (map all_routes rs))"

definition built_fallbacks :: "store \<Rightarrow> route list option" where
  "built_fallbacks h0 = map_option fallback_routes (built_routes h0)"

subsection \<open>Observations of a session\<close>

definition session_outputs :: "store \<Rightarrow> 'a list list \<Rightarrow> jsx list option" where
  "session_outputs h0 argss = map_option (\<lambda>(r, els, h). els) (session h0 argss)"

definition session_store :: "store \<Rightarrow> 'a list list \<Rightarrow> store option" where
  "session_store h0 argss = map_option (\<lambda>(r, els, h). h) (session h0 argss)"

text \<open>The router objects allocated since the session began.\<close>

definition routers_constructed :: "store \<Rightarrow> 'a list list \<Rightarrow> router_object list option" where
  "routers_constructed h0 argss = map_option (drop (length h0)) (session_store h0 argss)"

text \<open>The route objects and the table that the module's router owns when the session ends.\<close>

definition session_routes :: "store \<Rightarrow> 'a list list \<Rightarrow> route list option" where
  "session_routes h0 argss =
     (case session h0 argss of
        None \<Rightarrow> None
      | Some (r, els, h) \<Rightarrow> map_option routes (deref h r))"

definition session_table :: "store \<Rightarrow> 'a list list \<Rightarrow> (string \<times> jsx) list option" where
  "session_table h0 argss = map_option route_table (session_routes h0 argss)"

section \<open>Properties\<close>

subsection \<open>Construction\<close>

lemma createRoutesFromElements_route_elements:
  "createRoutesFromElements route_elements =
     Some [RouteObject None None [RouteObject (Some ''/'') (Some Home) []]]"
  by (simp add: route_elements_def)

lemma router_eq:
  "router h =
     Some (length h,
           h @ [\<lparr>routes = [RouteObject None None [RouteObject (Some ''/'') (Some Home) []]]\<rparr>])"
  by (simp add: router_def createRoutesFromElements_route_elements createBrowserRouter_def)

lemma built_routes_eq:
  "built_routes h0 = Some [RouteObject None None [RouteObject (Some ''/'') (Some Home) []]]"
  by (simp add: built_routes_def router_eq deref_def)

text \<open>
  C1. The route table built at startup contains exactly one route entry: its path is
  \<^verbatim>\<open>/\<close> and its page is the \<^verbatim>\<open>Home\<close> element; there is no other pair of a path and a page
  in the table. The construction cannot fail, whatever the store it starts from.
\<close>

theorem route_table_single_home_entry:
  "built_table h0 = Some [(''/'', Home)]"
  by (simp add: built_table_def built_routes_eq route_table_def)

subsection \<open>Sessions\<close>

lemma mounts_eq: "mounts r argss h = (replicate (length argss) (RouterProvider r), h)"
  by (induction argss arbitrary: h) (simp_all add: App_def)

lemma session_eq:
  "session h0 argss =
     Some (length h0, replicate (length argss) (RouterProvider (length h0)),
           h0 @ [\<lparr>routes = [RouteObject None None [RouteObject (Some ''/'') (Some Home) []]]\<rparr>])"
  by (simp add: session_def router_eq mounts_eq)

lemma session_routes_eq:
  "session_routes h0 argss =
     Some [RouteObject None None [RouteObject (Some ''/'') (Some Home) []]]"
  by (simp add: session_routes_def session_eq deref_def)

lemma matching_entries_built:
  "matching_entries pm [RouteObject None None [RouteObject (Some ''/'') (Some Home) []]] loc =
     (if pm ''/'' loc then [(''/'', Home)] else [])"
  by (simp add: matching_entries_def route_table_def)

lemma mount_at_eq:
  "mount_at pm page h0 args loc =
     Some (if pm ''/'' loc then Rendered (page Home) else DefaultErrorPage)"
  by (simp add: mount_at_def router_eq App_def render_def deref_def resolve_def
      matching_entries_built)

text \<open>
  C2. At the location \<^verbatim>\<open>/\<close> the router's resolution finds the entry with path \<^verbatim>\<open>/\<close>, and
  what the mounted \<^verbatim>\<open>App\<close> renders there is the output of the \<^verbatim>\<open>Home\<close> page. This holds for
  every path test of the routing library that accepts the location \<^verbatim>\<open>/\<close> for the pattern
  \<^verbatim>\<open>/\<close>.
\<close>

theorem root_location_renders_home:
  assumes "pm ''/'' ''/''"
  shows "built_matches pm h0 ''/'' = Some [(''/'', Home)]
    \<and> mount_at pm page h0 args ''/'' = Some (Rendered (page Home))"
  using assms
  by (simp add: built_matches_def built_routes_eq matching_entries_built mount_at_eq)

theorem root_location_renders_home_witness:
  "path_matches ''/'' ''/''
    \<and> built_matches path_matches [] ''/'' = Some [(''/'', Home)]
    \<and> mount_at path_matches (\<lambda>el. el) [] ([] :: unit list) ''/'' = Some (Rendered Home)"
proof -
  have h: "path_matches ''/'' ''/''"
    by (simp add: path_matches_def)
  show ?thesis
    using h root_location_renders_home [of path_matches "[]" "\<lambda>el. el" "[] :: unit list"]
    by simp
qed

lemma pathname_not_Nil: "pathname loc \<noteq> []"
  by (simp add: pathname_def split: list.split)

lemma strip_trailing_slashes_Nil: "strip_trailing_slashes cs = [] \<longleftrightarrow> list_all is_slash cs"
  by (simp add: strip_trailing_slashes_def dropWhile_eq_Nil_conv list_all_iff)

lemma matchPath_root: "matchPath ''/'' loc \<longleftrightarrow> list_all is_slash (pathname loc)"
proof (cases "pathname loc")
  case Nil
  then show ?thesis by (simp add: pathname_not_Nil)
next
  case (Cons c rest)
  have "strip_leading_slashes (strip_trailing_slashes ''/'') = []"
    by (simp add: strip_leading_slashes_def strip_trailing_slashes_def is_slash_def)
  then show ?thesis
    by (simp add: matchPath_def Cons strip_trailing_slashes_Nil)
qed

text \<open>
  C3, as the claim states it, fails: the location \<^verbatim>\<open>//\<close> is not \<^verbatim>\<open>/\<close>, and the router
  resolves it to the entry with path \<^verbatim>\<open>/\<close>, because the path test ignores trailing slashes.
\<close>

theorem double_slash_matches_root:
  "''//'' \<noteq> ''/'' \<and> built_matches matchPath [] ''//'' = Some [(''/'', Home)]"
  by (simp add: built_matches_def built_routes_eq matching_entries_built matchPath_root
      pathname_def is_slash_def)

text \<open>
  C3, amended. For every location whose pathname is not made of slashes only, resolution
  over the route table of the module finds no entry: the one entry with a path, \<^verbatim>\<open>/\<close>, does
  not accept it, and the tree declares no fallback route.
\<close>

theorem unmatched_location_no_match:
  assumes "\<not> list_all is_slash (pathname loc)"
  shows "built_matches matchPath h0 loc = Some [] \<and> built_fallbacks h0 = Some []"
  using assms
  by (simp add: built_matches_def built_fallbacks_def built_routes_eq
      matching_entries_built matchPath_root fallback_routes_def)

theorem unmatched_location_no_match_witness:
  "\<not> list_all is_slash (pathname ''/unknown'')
    \<and> built_matches matchPath [] ''/unknown'' = Some []
    \<and> built_fallbacks [] = Some []"
proof -
  have h: "\<not> list_all is_slash (pathname ''/unknown'')"
    by (simp add: pathname_def is_slash_def)
  show ?thesis
    using h unmatched_location_no_match [OF h, of "[]"]
    by simp
qed

text \<open>
  C5. Whatever the location and whatever path test the routing library applies, the
  entries of the module's route table that match number zero or one.
\<close>

theorem at_most_one_match:
  "\<exists>ms. built_matches pm h0 loc = Some ms \<and> length ms \<le> 1"
  by (simp add: built_matches_def built_routes_eq matching_entries_built)


subsection \<open>The lifetime of the router and its table\<close>

lemma session_store_eq:
  "session_store h0 argss =
     Some (h0 @ [\<lparr>routes = [RouteObject None None [RouteObject (Some ''/'') (Some Home) []]]\<rparr>])"
  by (simp add: session_store_def session_eq)

lemma session_table_eq: "session_table h0 argss = Some [(''/'', Home)]"
  by (simp add: session_table_def session_routes_eq route_table_def)

text \<open>
  C4. The router and its route table are constructed once, when the module is
  evaluated and before any render: however many times \<^verbatim>\<open>App\<close> is invoked in the session,
  the router objects allocated since its start are the one router of the module, as with
  no invocation at all, and its table still holds the one entry, once.
\<close>

theorem router_constructed_once:
  "routers_constructed h0 argss =
     Some [\<lparr>routes = [RouteObject None None [RouteObject (Some ''/'') (Some Home) []]]\<rparr>]
   \<and> routers_constructed h0 argss = routers_constructed h0 ([] :: 'a list list)
   \<and> session_table h0 argss = Some [(''/'', Home)]"
  by (simp add: routers_constructed_def session_store_eq session_table_eq)

text \<open>
  C6. In the route table the module's router owns, the paths of the entries are pairwise
  distinct, and this holds after any number of invocations of \<^verbatim>\<open>App\<close>.
\<close>

theorem paths_unique_for_lifetime:
  "\<exists>tbl. session_table h0 argss = Some tbl \<and> distinct (map fst tbl)"
  by (simp add: session_table_eq)

text \<open>
  C7. The route table is never mutated after its construction: after the first \<open>t\<close>
  invocations of \<^verbatim>\<open>App\<close>, for every \<open>t\<close>, the route objects the router owns are the ones it
  was constructed with, and the whole store is the store the construction left.
\<close>

theorem route_table_never_mutated:
  "session_routes h0 (take t argss) = built_routes h0
   \<and> session_store h0 (take t argss) = map_option snd (router h0)
   \<and> (\<exists>rs. built_routes h0 = Some rs)"
  by (simp add: session_routes_eq built_routes_eq session_store_eq router_eq)

subsection \<open>The component\<close>

text \<open>
  C8. The module exposes one thing, the default export, which is \<^verbatim>\<open>App\<close>. \<^verbatim>\<open>App\<close> binds
  none of the arguments it is called with, and every invocation returns the
  \<^verbatim>\<open>RouterProvider\<close> element of the module-level router, leaving the store as it was.
\<close>

theorem App_is_default_export:
  "map fst (module_exports r :: (string \<times> ('a list \<Rightarrow> store \<Rightarrow> jsx \<times> store)) list) = [''default'']
   \<and> map_of (module_exports r) ''default'' = Some (App r :: 'a list \<Rightarrow> store \<Rightarrow> jsx \<times> store)
   \<and> App r (args :: 'a list) h = (RouterProvider r, h)
   \<and> App r args h = App r [] h
   \<and> session_outputs h0 [args] = map_option (\<lambda>(r, h1). [RouterProvider r]) (router h0)
   \<and> (\<exists>r h1. router h0 = Some (r, h1))"
  by (simp add: module_exports_def App_def session_outputs_def session_eq router_eq)

text \<open>
  C9. The route configuration is a tree, not a flat list of one element: one parent route
  without path and without element, whose only child is the route with path \<^verbatim>\<open>/\<close> and the
  \<^verbatim>\<open>Home\<close> element. The parent adds no entry of its own, so resolution over the tree is
  resolution over its child.
\<close>

theorem route_tree_has_pathless_wrapper:
  "built_routes h0 \<noteq> Some [RouteObject (Some ''/'') (Some Home) []]
   \<and> (\<exists>parent child.
         built_routes h0 = Some [parent]
       \<and> path parent = None \<and> element parent = None \<and> children parent = [child]
       \<and> path child = Some ''/'' \<and> element child = Some Home \<and> children child = []
       \<and> route_entries parent = route_entries child
       \<and> matching_entries pm [parent] loc = matching_entries pm [child] loc)"
  by (simp add: built_routes_eq matching_entries_def route_table_def)

text \<open>
  C10. \<^verbatim>\<open>App\<close> is deterministic and independent of its input: two invocations with any
  arguments return the same element, and in any two sessions, whatever the arguments
  of each invocation, every invocation returns the \<^verbatim>\<open>RouterProvider\<close> element that refers to
  the one router object of the module.
\<close>

theorem App_input_independent:
  "fst (App r (a :: 'a list) h) = fst (App r (b :: 'b list) h')
   \<and> (\<exists>r0. map_option fst (router h0) = Some r0
        \<and> session_outputs h0 (xs :: 'a list list) = Some (replicate (length xs) (RouterProvider r0))
        \<and> session_outputs h0 (ys :: 'b list list) = Some (replicate (length ys) (RouterProvider r0)))"
  by (simp add: App_def session_outputs_def session_eq router_eq)


end
